theory Spec2Isabelle
  imports Main "HOL-Library.AList" "HOL-Library.List_Lexorder" "HOL-Library.Char_ord"
begin

section \<open>Python values and dictionaries\<close>

text \<open>
  The values that can sit in the argument bag of a task and in the raw data of a task
  node: what the YAML decoder produces, plus the class object \<open>Sentinel\<close> that marks a
  field as unset. Dictionary keys are strings.
\<close>

datatype pyval =
    PNone
  | PBool bool
  | PInt int
  | PStr string
  | PList "pyval list"
  | PDict "(string \<times> pyval) list"
  | PSentinel

type_synonym dict = "(string \<times> pyval) list"

text \<open>
  Every exception the modelled methods can raise. \<open>AnsibleParserError\<close> carries its
  message and the optional \<open>obj\<close> keyword argument.
\<close>

datatype error =
    AnsibleParserError string "pyval option"
  | KeyError string
  | TypeError
  | AttributeError

text \<open>Python truthiness, as \<open>if x\<close> and \<open>not x\<close> test it.\<close>

fun truthy :: "pyval \<Rightarrow> bool" where
  "truthy PNone = False"
| "truthy (PBool b) = b"
| "truthy (PInt i) = (i \<noteq> 0)"
| "truthy (PStr s) = (s \<noteq> [])"
| "truthy (PList xs) = (xs \<noteq> [])"
| "truthy (PDict d) = (d \<noteq> [])"
| "truthy PSentinel = True"

text \<open>\<open>isinstance(x, dict)\<close>.\<close>

fun isinstance_dict :: "pyval \<Rightarrow> bool" where
  "isinstance_dict (PDict d) = True"
| "isinstance_dict v = False"

text \<open>What \<open>'%s' % type(x)\<close> prints, for the builtin types.\<close>

definition class_repr :: "string \<Rightarrow> string" where
  "class_repr n = ''<class '' @ [CHR 0x27] @ n @ [CHR 0x27] @ ''>''"

fun type_str :: "pyval \<Rightarrow> string" where
  "type_str PNone = class_repr ''NoneType''"
| "type_str (PBool b) = class_repr ''bool''"
| "type_str (PInt i) = class_repr ''int''"
| "type_str (PStr s) = class_repr ''str''"
| "type_str (PList xs) = class_repr ''list''"
| "type_str (PDict d) = class_repr ''dict''"
| "type_str PSentinel = class_repr ''type''"

text \<open>
  A dictionary is an association list read through \<open>map_of\<close>: the first pair of a key is
  its entry. \<open>d.get(k, dflt)\<close>, \<open>d[k]\<close>, \<open>d[k] = v\<close>, \<open>d.pop(k, dflt)\<close>, \<open>k in d\<close> and
  \<open>d.keys()\<close>.
\<close>

definition dict_get :: "dict \<Rightarrow> string \<Rightarrow> pyval \<Rightarrow> pyval" where
  "dict_get d k dflt = (case map_of d k of None \<Rightarrow> dflt | Some v \<Rightarrow> v)"

definition dict_getitem :: "dict \<Rightarrow> string \<Rightarrow> error + pyval" where
  "dict_getitem d k = (case map_of d k of None \<Rightarrow> Inl (KeyError k) | Some v \<Rightarrow> Inr v)"

definition dict_setitem :: "dict \<Rightarrow> string \<Rightarrow> pyval \<Rightarrow> dict" where
  "dict_setitem d k v = AList.update k v d"

definition dict_pop :: "dict \<Rightarrow> string \<Rightarrow> pyval \<Rightarrow> pyval \<times> dict" where
  "dict_pop d k dflt = (dict_get d k dflt, AList.delete k d)"

definition dict_contains :: "dict \<Rightarrow> string \<Rightarrow> bool" where
  "dict_contains d k = (map_of d k \<noteq> None)"

definition dict_keys :: "dict \<Rightarrow> string list" where
  "dict_keys d = remdups (map fst d)"

text \<open>\<open>x[k] = v\<close> on an arbitrary value: only a dictionary accepts a string key.\<close>

fun setitem :: "pyval \<Rightarrow> string \<Rightarrow> pyval \<Rightarrow> error + pyval" where
  "setitem (PDict d) k v = Inr (PDict (dict_setitem d k v))"
| "setitem x k v = Inl TypeError"

text \<open>\<open>x in t\<close> for a tuple \<open>t\<close> of strings: only an equal string is a member.\<close>

fun py_in :: "pyval \<Rightarrow> string list \<Rightarrow> bool" where
  "py_in (PStr s) t = (s \<in> set t)"
| "py_in v t = False"

text \<open>\<open>sep.join(xs)\<close>.\<close>

fun join :: "string \<Rightarrow> string list \<Rightarrow> string" where
  "join sep [] = []"
| "join sep [x] = x"
| "join sep (x # y # ys) = x @ sep @ join sep (y # ys)"

section \<open>The collaborators of \<open>TaskInclude\<close>\<close>

text \<open>
  \<open>ansible.constants\<close> is not part of the verified file; the three action tuples and the
  policy flag that \<open>TaskInclude\<close> reads from it are parameters of the model.
\<close>

record constants =
  ACTION_ALL_PROPER_INCLUDE_IMPORT_TASKS :: "string list"
  ACTION_INCLUDE_TASKS :: "string list"
  ACTION_ALL_INCLUDE_ROLE_TASKS :: "string list"
  INVALID_TASK_ATTRIBUTE_FAILED :: bool

text \<open>
  A set of strings is held as a duplicate-free list of its elements. Python iterates a
  set in an order fixed by the hashes of the elements, which change from one interpreter
  run to the next; the model takes that order as a parameter of type \<open>set_order\<close>, a
  function that lists the elements of a set. \<open>permutes\<close> says that such a function
  yields every element exactly once.
\<close>

type_synonym set_order = "string list \<Rightarrow> string list"

definition permutes :: "set_order \<Rightarrow> bool" where
  "permutes h = (\<forall>xs. distinct xs \<longrightarrow> set (h xs) = set xs \<and> distinct (h xs))"

text \<open>
  The enclosing block, of which only the \<open>_play\<close> attribute is read. Plays, roles,
  variable managers and loaders are object references.
\<close>

record block_ref =
  play :: "nat option"

text \<open>
  A \<open>TaskInclude\<close> instance: the fields of the base task that the class reads
  (\<open>action\<close>, \<open>args\<close>, \<open>_parent\<close>, \<open>_role\<close>, \<open>_variable_manager\<close>, \<open>_loader\<close>),
  the name of its class and its own flag \<open>statically_loaded\<close>.
\<close>

record task_include =
  class_name :: string
  action :: string
  args :: dict
  statically_loaded :: bool
  parent :: "block_ref option"
  role :: "nat option"
  variable_manager :: "nat option"
  loader :: "nat option"

section \<open>Class attributes\<close>

definition BASE :: "string list" where
  "BASE = [''file'', ''_raw_params'']"

definition OTHER_ARGS :: "string list" where
  "OTHER_ARGS = [''apply'']"

definition VALID_ARGS :: "string list" where
  "VALID_ARGS = BASE @ OTHER_ARGS"

definition VALID_INCLUDE_KEYWORDS :: "string list" where
  "VALID_INCLUDE_KEYWORDS =
     [''action'', ''args'', ''collections'', ''debugger'', ''ignore_errors'', ''loop'',
      ''loop_control'', ''loop_with'', ''name'', ''no_log'', ''register'', ''run_once'',
      ''tags'', ''timeout'', ''vars'', ''when'']"

section \<open>\<open>check_options\<close>\<close>

text \<open>
  The method mutates the task it is given and either returns it or raises. The model
  returns \<open>Inr task'\<close> for a return and \<open>Inl (e, task')\<close> for a raise of \<open>e\<close>, where
  \<open>task'\<close> is the task as the call leaves it. The three statement groups of the method
  are three functions, run in the order of the source.
\<close>

text \<open>Lines 69 to 74: the keys of \<open>args\<close> outside \<open>VALID_ARGS\<close>.\<close>

definition bad_opts :: "task_include \<Rightarrow> string list" where
  "bad_opts task =
     (let my_arg_names = dict_keys (args task)
      in filter (\<lambda>k. k \<notin> set VALID_ARGS) my_arg_names)"

definition check_bad_opts ::
  "constants \<Rightarrow> set_order \<Rightarrow> task_include \<Rightarrow> pyval \<Rightarrow> (error \<times> task_include) + task_include" where
  "check_bad_opts C h task data =
     (if bad_opts task \<noteq> [] \<and> action task \<in> set (ACTION_ALL_PROPER_INCLUDE_IMPORT_TASKS C)
      then Inl (AnsibleParserError
                  (''Invalid options for '' @ action task @ '': '' @ join '','' (h (bad_opts task)))
                  (Some data), task)
      else Inr task)"

text \<open>Lines 76 to 79: \<open>file\<close> is folded into \<open>_raw_params\<close>.\<close>

definition check_raw_params :: "task_include \<Rightarrow> (error \<times> task_include) + task_include" where
  "check_raw_params task =
     (if \<not> truthy (dict_get (args task) ''_raw_params'' PNone)
      then (let (v, popped) = dict_pop (args task) ''file'' PNone;
                task1 = task\<lparr>args := dict_setitem popped ''_raw_params'' v\<rparr>
            in case dict_getitem (args task1) ''_raw_params'' of
                 Inl e \<Rightarrow> Inl (e, task1)
               | Inr r \<Rightarrow>
                   if \<not> truthy r
                   then Inl (AnsibleParserError (''No file specified for '' @ action task1) None,
                             task1)
                   else Inr task1)
      else Inr task)"

text \<open>Lines 81 to 85: \<open>apply\<close>.\<close>

definition check_apply ::
  "constants \<Rightarrow> task_include \<Rightarrow> pyval \<Rightarrow> (error \<times> task_include) + task_include" where
  "check_apply C task data =
     (let apply_attrs = dict_get (args task) ''apply'' (PDict [])
      in if truthy apply_attrs \<and> action task \<notin> set (ACTION_INCLUDE_TASKS C)
         then Inl (AnsibleParserError (''Invalid options for '' @ action task @ '': apply'')
                     (Some data), task)
         else if \<not> isinstance_dict apply_attrs
         then Inl (AnsibleParserError
                     (''Expected a dict for apply but got '' @ type_str apply_attrs @ '' instead'')
                     (Some data), task)
         else Inr task)"

definition check_options ::
  "constants \<Rightarrow> set_order \<Rightarrow> task_include \<Rightarrow> pyval \<Rightarrow> (error \<times> task_include) + task_include" where
  "check_options C h task data =
     (case check_bad_opts C h task data of
        Inl r \<Rightarrow> Inl r
      | Inr task0 \<Rightarrow>
          (case check_raw_params task0 of
             Inl r \<Rightarrow> Inl r
           | Inr task1 \<Rightarrow> check_apply C task1 data))"

section \<open>\<open>preprocess_data\<close>\<close>

text \<open>
  \<open>display.warning\<close> appends a line to the display; the display is the list of the
  warnings sent so far. The method of the base class, \<open>Task.preprocess_data\<close>, lives
  outside the verified file: it is the parameter \<open>Task_preprocess_data\<close>, which takes
  the data and the display and returns the data it built or raises, and the display.
\<close>

type_synonym display = "string list"

text \<open>
  The body of the \<open>for k in diff\<close> loop, over the keys in the order of iteration.
  \<open>ds['action']\<close> is read only when \<open>ds[k]\<close> is not \<open>Sentinel\<close>.
\<close>

fun for_diff ::
  "constants \<Rightarrow> task_include \<Rightarrow> dict \<Rightarrow> string list \<Rightarrow> display \<Rightarrow> (error + unit) \<times> display" where
  "for_diff C self ds [] out = (Inr (), out)"
| "for_diff C self ds (k # ks) out =
     (case dict_getitem ds k of
        Inl e \<Rightarrow> (Inl e, out)
      | Inr v \<Rightarrow>
          if v \<noteq> PSentinel
          then (case dict_getitem ds ''action'' of
                  Inl e \<Rightarrow> (Inl e, out)
                | Inr a \<Rightarrow>
                    if py_in a (ACTION_ALL_INCLUDE_ROLE_TASKS C)
                    then if INVALID_TASK_ATTRIBUTE_FAILED C
                         then (Inl (AnsibleParserError
                                      ([CHR 0x27] @ k @ [CHR 0x27] @
                                       '' is not a valid attribute for a '' @ class_name self)
                                      (Some (PDict ds))), out)
                         else for_diff C self ds ks (out @ [''Ignoring invalid attribute: '' @ k])
                    else for_diff C self ds ks out)
          else for_diff C self ds ks out)"

definition preprocess_data ::
  "constants \<Rightarrow> set_order \<Rightarrow> (dict \<Rightarrow> display \<Rightarrow> (error + dict) \<times> display) \<Rightarrow>
   task_include \<Rightarrow> dict \<Rightarrow> display \<Rightarrow> (error + dict) \<times> display" where
  "preprocess_data C h Task_preprocess_data self ds0 out0 =
     (case Task_preprocess_data ds0 out0 of
        (Inl e, out) \<Rightarrow> (Inl e, out)
      | (Inr ds, out) \<Rightarrow>
          (let diff = filter (\<lambda>k. k \<notin> set VALID_INCLUDE_KEYWORDS) (dict_keys ds)
           in case for_diff C self ds (h diff) out of
                (Inl e, out') \<Rightarrow> (Inl e, out')
              | (Inr u, out') \<Rightarrow> (Inr ds, out')))"

section \<open>\<open>copy\<close>\<close>

text \<open>
  \<open>Task.copy\<close>, the method of the base class, is the parameter \<open>Task_copy\<close>: it
  returns a new instance or raises.
\<close>

definition copy ::
  "(task_include \<Rightarrow> bool \<Rightarrow> bool \<Rightarrow> error + task_include) \<Rightarrow>
   task_include \<Rightarrow> bool \<Rightarrow> bool \<Rightarrow> error + task_include" where
  "copy Task_copy self exclude_parent exclude_tasks =
     (case Task_copy self exclude_parent exclude_tasks of
        Inl e \<Rightarrow> Inl e
      | Inr new_me \<Rightarrow> Inr (new_me\<lparr>statically_loaded := statically_loaded self\<rparr>))"

section \<open>\<open>build_parent_block\<close>\<close>

text \<open>
  The method returns either the block that \<open>Block.load\<close> built or the instance it was
  called on: \<open>NewBlock b\<close> or \<open>Self\<close>. \<open>Block.load\<close> is the parameter
  \<open>Block_load\<close>, with the arguments of the call in the order of the source: the
  mapping, \<open>play\<close>, \<open>task_include\<close>, \<open>role\<close>, \<open>variable_manager\<close> and \<open>loader\<close>.
  The result of the model is the value returned or the exception raised, and the instance
  as the call leaves it.
\<close>

datatype 'b p_block = NewBlock 'b | Self

definition build_parent_block ::
  "(pyval \<Rightarrow> nat option \<Rightarrow> task_include \<Rightarrow> nat option \<Rightarrow> nat option \<Rightarrow> nat option \<Rightarrow> error + 'b) \<Rightarrow>
   task_include \<Rightarrow> (error + 'b p_block) \<times> task_include" where
  "build_parent_block Block_load self0 =
     (let (apply_attrs, popped) = dict_pop (args self0) ''apply'' (PDict []);
          self = self0\<lparr>args := popped\<rparr>
      in if truthy apply_attrs
         then (case setitem apply_attrs ''block'' (PList []) of
                 Inl e \<Rightarrow> (Inl e, self)
               | Inr apply_attrs' \<Rightarrow>
                   (case parent self of
                      None \<Rightarrow> (Inl AttributeError, self)
                    | Some p \<Rightarrow>
                        (case Block_load apply_attrs' (play p) self (role self)
                                (variable_manager self) (loader self) of
                           Inl e \<Rightarrow> (Inl e, self)
                         | Inr b \<Rightarrow> (Inr (NewBlock b), self))))
         else (Inr Self, self))"

section \<open>Auxiliary definitions\<close>

text \<open>
  The task after line 77 of \<open>check_options\<close> has run: \<open>file\<close> popped (\<open>None\<close> when it
  was absent) and the popped value stored under \<open>_raw_params\<close>.
\<close>

definition fold_file :: "task_include \<Rightarrow> task_include" where
  "fold_file task =
     task\<lparr>args := dict_setitem (AList.delete ''file'' (args task)) ''_raw_params''
                      (dict_get (args task) ''file'' PNone)\<rparr>"

text \<open>A key of the data whose value is not \<open>Sentinel\<close>.\<close>

definition supplied :: "dict \<Rightarrow> string \<Rightarrow> bool" where
  "supplied ds k = (case map_of ds k of None \<Rightarrow> False | Some v \<Rightarrow> v \<noteq> PSentinel)"

subsection \<open>Example inputs\<close>

text \<open>
  A constants store with the action names of the task and role includes and the strict
  policy, an instance inside a block of play 1, and stand-ins for the three methods of
  other classes: a \<open>Task.copy\<close> that builds a fresh instance (flag reset) and drops the
  parent on request, a \<open>Block.load\<close> that records its arguments, and a
  \<open>Task.preprocess_data\<close> that returns the data as it is.
\<close>

definition C_ex :: constants where
  "C_ex = \<lparr>ACTION_ALL_PROPER_INCLUDE_IMPORT_TASKS = [''include_tasks'', ''import_tasks''],
           ACTION_INCLUDE_TASKS = [''include_tasks''],
           ACTION_ALL_INCLUDE_ROLE_TASKS = [''include_role'', ''include_tasks''],
           INVALID_TASK_ATTRIBUTE_FAILED = True\<rparr>"

definition ti_ex :: "string \<Rightarrow> dict \<Rightarrow> task_include" where
  "ti_ex a d =
     \<lparr>class_name = ''TaskInclude'', action = a, args = d, statically_loaded = False,
      parent = Some \<lparr>play = Some 1\<rparr>, role = Some 2, variable_manager = Some 3,
      loader = Some 4\<rparr>"

definition Task_copy_ex :: "task_include \<Rightarrow> bool \<Rightarrow> bool \<Rightarrow> error + task_include" where
  "Task_copy_ex self exclude_parent exclude_tasks =
     Inr (self\<lparr>statically_loaded := False,
               parent := (if exclude_parent then None else parent self)\<rparr>)"

definition Block_load_ex ::
  "pyval \<Rightarrow> nat option \<Rightarrow> task_include \<Rightarrow> nat option \<Rightarrow> nat option \<Rightarrow> nat option \<Rightarrow>
   error + (pyval \<times> nat option \<times> task_include \<times> nat option \<times> nat option \<times> nat option)" where
  "Block_load_ex ds pl ti r vm ld = Inr (ds, pl, ti, r, vm, ld)"

definition Task_preprocess_data_ex :: "dict \<Rightarrow> display \<Rightarrow> (error + dict) \<times> display" where
  "Task_preprocess_data_ex ds out = (Inr ds, out)"

definition ds_ex :: dict where
  "ds_ex = [(''action'', PStr ''include_role''), (''args'', PDict [(''name'', PStr ''web'')]),
            (''delegate_to'', PSentinel), (''foo'', PStr ''bar''), (''when'', PStr ''x'')]"

text \<open>
  Data with two keys outside the keywords of an include, and a \<open>Task.preprocess_data\<close>
  that builds its data without the key \<open>foo\<close>.
\<close>

definition ds_two_ex :: dict where
  "ds_two_ex = [(''action'', PStr ''include_role''), (''args'', PDict [(''name'', PStr ''web'')]),
                (''foo'', PStr ''bar''), (''zap'', PInt 1)]"

definition Task_preprocess_data_drop_ex :: "dict \<Rightarrow> display \<Rightarrow> (error + dict) \<times> display" where
  "Task_preprocess_data_drop_ex ds out = (Inr (AList.delete ''foo'' ds), out)"

section \<open>Dictionaries, sets of keys\<close>

lemma permutes_id: "permutes id"
  by (simp add: permutes_def)

lemma permutes_rev: "permutes rev"
  by (simp add: permutes_def)

lemma dict_contains_iff: "dict_contains d k \<longleftrightarrow> k \<in> fst ` set d"
  by (simp add: dict_contains_def map_of_eq_None_iff)

lemma set_dict_keys: "set (dict_keys d) = {k. dict_contains d k}"
  by (auto simp: dict_keys_def dict_contains_iff)

lemma distinct_dict_keys: "distinct (dict_keys d)"
  by (simp add: dict_keys_def)

lemma map_of_dict_setitem: "map_of (dict_setitem d k v) = (map_of d)(k \<mapsto> v)"
  by (simp add: dict_setitem_def update_conv')

lemma map_of_delete: "map_of (AList.delete k d) = (map_of d)(k := None)"
  by (simp add: delete_conv')

lemma delete_absent: "map_of d k = None \<Longrightarrow> AList.delete k d = d"
  by (induction d) (auto split: if_splits)

lemma dict_getitem_setitem: "dict_getitem (dict_setitem d k v) k = Inr v"
  by (simp add: dict_getitem_def map_of_dict_setitem)

lemmas ex_defs = C_ex_def ti_ex_def check_options_def check_bad_opts_def bad_opts_def
  dict_keys_def VALID_ARGS_def BASE_def OTHER_ARGS_def check_raw_params_def check_apply_def
  dict_get_def dict_pop_def dict_setitem_def dict_getitem_def dict_contains_def class_repr_def

section \<open>The three checks of \<open>check_options\<close>\<close>

lemma set_bad_opts:
  "set (bad_opts task) = {k. dict_contains (args task) k \<and> k \<notin> set VALID_ARGS}"
  by (auto simp: bad_opts_def set_dict_keys)

lemma distinct_bad_opts: "distinct (bad_opts task)"
  by (simp add: bad_opts_def distinct_dict_keys)

lemma bad_opts_empty_iff:
  "bad_opts task = [] \<longleftrightarrow> (\<forall>k. dict_contains (args task) k \<longrightarrow> k \<in> set VALID_ARGS)"
proof -
  have "bad_opts task = [] \<longleftrightarrow> set (bad_opts task) = {}" by simp
  also have "\<dots> \<longleftrightarrow> (\<forall>k. dict_contains (args task) k \<longrightarrow> k \<in> set VALID_ARGS)"
    unfolding set_bad_opts by blast
  finally show ?thesis .
qed

lemma check_bad_opts_cases:
  "check_bad_opts C h task data = Inr task \<or>
   (\<exists>m. check_bad_opts C h task data = Inl (AnsibleParserError m (Some data), task))"
  by (simp add: check_bad_opts_def)

lemma check_bad_opts_pass:
  "bad_opts task = [] \<or> action task \<notin> set (ACTION_ALL_PROPER_INCLUDE_IMPORT_TASKS C) \<Longrightarrow>
   check_bad_opts C h task data = Inr task"
  by (auto simp: check_bad_opts_def)

lemma check_raw_params_cases:
  "check_raw_params task =
     (if truthy (dict_get (args task) ''_raw_params'' PNone) then Inr task
      else if truthy (dict_get (args task) ''file'' PNone) then Inr (fold_file task)
      else Inl (AnsibleParserError (''No file specified for '' @ action task) None,
                fold_file task))"
  by (simp add: check_raw_params_def dict_pop_def dict_getitem_setitem fold_file_def)

lemma args_fold_file:
  "map_of (args (fold_file task)) =
     ((map_of (args task))(''file'' := None))
       (''_raw_params'' \<mapsto> dict_get (args task) ''file'' PNone)"
  by (simp add: fold_file_def map_of_dict_setitem map_of_delete)

lemma action_fold_file: "action (fold_file task) = action task"
  by (simp add: fold_file_def)

lemma apply_fold_file:
  "dict_get (args (fold_file task)) ''apply'' dflt = dict_get (args task) ''apply'' dflt"
  by (simp add: dict_get_def args_fold_file)

lemma check_apply_cases:
  "check_apply C task data = Inr task \<or>
   (\<exists>m. check_apply C task data = Inl (AnsibleParserError m (Some data), task))"
  by (simp add: check_apply_def Let_def)

lemma check_apply_succeeds_iff:
  "(\<exists>task'. check_apply C task data = Inr task') \<longleftrightarrow>
     isinstance_dict (dict_get (args task) ''apply'' (PDict [])) \<and>
     (truthy (dict_get (args task) ''apply'' (PDict [])) \<longrightarrow>
        action task \<in> set (ACTION_INCLUDE_TASKS C))"
  by (auto simp: check_apply_def Let_def)

lemma check_options_after_target:
  assumes "bad_opts task = [] \<or> action task \<notin> set (ACTION_ALL_PROPER_INCLUDE_IMPORT_TASKS C)"
    and "truthy (dict_get (args task) ''_raw_params'' PNone) \<or>
         truthy (dict_get (args task) ''file'' PNone)"
  shows "\<exists>task'. check_raw_params task = Inr task'
           \<and> check_options C h task data = check_apply C task' data
           \<and> action task' = action task
           \<and> dict_get (args task') ''apply'' (PDict []) = dict_get (args task) ''apply'' (PDict [])"
proof (cases "truthy (dict_get (args task) ''_raw_params'' PNone)")
  case True
  then show ?thesis
    using check_bad_opts_pass [OF assms(1)] by (simp add: check_options_def check_raw_params_cases)
next
  case False
  with assms(2) have "check_raw_params task = Inr (fold_file task)"
    by (simp add: check_raw_params_cases)
  then show ?thesis
    using check_bad_opts_pass [OF assms(1)]
    by (simp add: check_options_def action_fold_file apply_fold_file)
qed

section \<open>Invalid options\<close>

text \<open>
  C1, as the code has it. When the action is one of the proper include and import task
  actions and \<open>args\<close> holds a key outside \<open>VALID_ARGS\<close>, \<open>check_options\<close> raises the
  parser error whose message is \<open>Invalid options for\<close>, the action, a colon and the
  offending keys joined by commas. Every offending key is listed exactly once and no other
  key is listed; the keys come in the order in which the set is iterated, whatever that
  order is. The task is left as it was.
\<close>

theorem check_options_invalid_options:
  assumes "permutes h"
    and "action task \<in> set (ACTION_ALL_PROPER_INCLUDE_IMPORT_TASKS C)"
    and "dict_contains (args task) k" and "k \<notin> set VALID_ARGS"
  shows "\<exists>ks. check_options C h task data =
            Inl (AnsibleParserError
                   (''Invalid options for '' @ action task @ '': '' @ join '','' ks) (Some data),
                 task)
          \<and> distinct ks
          \<and> set ks = {k. dict_contains (args task) k \<and> k \<notin> set VALID_ARGS}"
proof -
  have ne: "bad_opts task \<noteq> []"
    using assms(3,4) set_bad_opts [of task] by auto
  have "set (h (bad_opts task)) = set (bad_opts task) \<and> distinct (h (bad_opts task))"
    using assms(1) distinct_bad_opts [of task] by (simp add: permutes_def)
  with ne assms(2) show ?thesis
    by (intro exI [of _ "h (bad_opts task)"])
       (simp add: check_options_def check_bad_opts_def set_bad_opts)
qed

theorem check_options_invalid_options_witness:
  "\<exists>ks. check_options C_ex rev
           (ti_ex ''include_tasks'' [(''alpha'', PInt 1), (''zeta'', PInt 2)]) (PDict []) =
            Inl (AnsibleParserError
                   (''Invalid options for include_tasks: '' @ join '','' ks) (Some (PDict [])),
                 ti_ex ''include_tasks'' [(''alpha'', PInt 1), (''zeta'', PInt 2)])
          \<and> distinct ks
          \<and> set ks = {k. dict_contains [(''alpha'', PInt 1), (''zeta'', PInt 2)] k \<and>
                         k \<notin> set VALID_ARGS}"
  using check_options_invalid_options
    [OF permutes_rev, of "ti_ex ''include_tasks'' [(''alpha'', PInt 1), (''zeta'', PInt 2)]"
        C_ex "''zeta''" "PDict []"]
  by (simp add: C_ex_def ti_ex_def dict_contains_def VALID_ARGS_def BASE_def OTHER_ARGS_def)

text \<open>
  The keys are not sorted. With \<open>args = {'alpha': 1, 'zeta': 2}\<close> and a set that
  iterates \<open>zeta\<close> before \<open>alpha\<close>, the message ends in \<open>zeta,alpha\<close>, which is not
  the sorted list of the keys.
\<close>

theorem check_options_invalid_options_unsorted:
  "check_options C_ex rev
     (ti_ex ''include_tasks'' [(''alpha'', PInt 1), (''zeta'', PInt 2)]) (PDict []) =
     Inl (AnsibleParserError ''Invalid options for include_tasks: zeta,alpha'' (Some (PDict [])),
          ti_ex ''include_tasks'' [(''alpha'', PInt 1), (''zeta'', PInt 2)])
   \<and> ''Invalid options for include_tasks: zeta,alpha'' \<noteq>
       ''Invalid options for include_tasks: '' @ join '','' (sort [''alpha'', ''zeta''])"
  by (simp add: ex_defs)

section \<open>The include target\<close>

text \<open>
  C2, as the code has it. Take a task that gets past the check of the option names, whose
  \<open>_raw_params\<close> is empty or absent and whose \<open>file\<close> entry is present and not empty.
  Then the step that folds \<open>file\<close> into \<open>_raw_params\<close> does not raise; the call ends
  either by returning the task or with an error of the \<open>apply\<close> check (an error that
  carries the data), and in both cases the task it leaves has the former value of
  \<open>file\<close> under \<open>_raw_params\<close> and no key \<open>file\<close>.
\<close>

theorem check_options_file_to_raw_params:
  assumes "bad_opts task = [] \<or> action task \<notin> set (ACTION_ALL_PROPER_INCLUDE_IMPORT_TASKS C)"
    and "\<not> truthy (dict_get (args task) ''_raw_params'' PNone)"
    and "map_of (args task) ''file'' = Some f"
    and "truthy f"
  shows "\<exists>task'. check_raw_params task = Inr task'
           \<and> (check_options C h task data = Inr task' \<or>
               (\<exists>m. check_options C h task data = Inl (AnsibleParserError m (Some data), task')))
           \<and> dict_getitem (args task') ''_raw_params'' = Inr f
           \<and> \<not> dict_contains (args task') ''file''"
proof -
  have f: "dict_get (args task) ''file'' PNone = f"
    using assms(3) by (simp add: dict_get_def)
  have step2: "check_raw_params task = Inr (fold_file task)"
    using assms(2,4) f by (simp add: check_raw_params_cases)
  have "check_options C h task data = check_apply C (fold_file task) data"
    using check_bad_opts_pass [OF assms(1)] step2 by (simp add: check_options_def)
  moreover have "dict_getitem (args (fold_file task)) ''_raw_params'' = Inr f"
    using f by (simp add: dict_getitem_def args_fold_file)
  moreover have "\<not> dict_contains (args (fold_file task)) ''file''"
    by (simp add: dict_contains_def args_fold_file)
  ultimately show ?thesis
    using step2 check_apply_cases [of C "fold_file task" data] by auto
qed

theorem check_options_file_to_raw_params_witness:
  "\<exists>task'. check_raw_params (ti_ex ''include_tasks'' [(''file'', PStr ''x.yml'')]) = Inr task'
           \<and> (check_options C_ex id (ti_ex ''include_tasks'' [(''file'', PStr ''x.yml'')])
                 (PDict []) = Inr task' \<or>
               (\<exists>m. check_options C_ex id (ti_ex ''include_tasks'' [(''file'', PStr ''x.yml'')])
                      (PDict []) =
                      Inl (AnsibleParserError m (Some (PDict [])), task')))
           \<and> dict_getitem (args task') ''_raw_params'' = Inr (PStr ''x.yml'')
           \<and> \<not> dict_contains (args task') ''file''"
  using check_options_file_to_raw_params
    [of "ti_ex ''include_tasks'' [(''file'', PStr ''x.yml'')]" C_ex "PStr ''x.yml''" id "PDict []"]
  by (simp add: ti_ex_def bad_opts_def dict_keys_def VALID_ARGS_def BASE_def OTHER_ARGS_def
      dict_get_def)

text \<open>
  A \<open>file\<close> entry that is present but empty does not pass the step: with
  \<open>args = {'file': ''}\<close> the call raises \<open>No file specified\<close>. And a task that is
  stopped by the check of the option names keeps its \<open>file\<close> entry: with
  \<open>args = {'file': 'x.yml', 'bogus': 1}\<close> on \<open>include_tasks\<close> the call raises
  \<open>Invalid options\<close> and \<open>args\<close> are as they were.
\<close>

theorem check_options_empty_file:
  "check_options C_ex id (ti_ex ''import_tasks'' [(''file'', PStr '''')]) (PDict []) =
     Inl (AnsibleParserError ''No file specified for import_tasks'' None,
          ti_ex ''import_tasks'' [(''_raw_params'', PStr '''')])
   \<and> check_options C_ex id
         (ti_ex ''include_tasks'' [(''file'', PStr ''x.yml''), (''bogus'', PInt 1)]) (PDict []) =
       Inl (AnsibleParserError ''Invalid options for include_tasks: bogus'' (Some (PDict [])),
            ti_ex ''include_tasks'' [(''file'', PStr ''x.yml''), (''bogus'', PInt 1)])"
  by (simp add: ex_defs)

text \<open>
  C3, as the code has it. Take a task that gets past the check of the option names and
  whose \<open>args\<close> hold neither a non-empty \<open>_raw_params\<close> nor a \<open>file\<close> entry. Then
  \<open>check_options\<close> raises the parser error \<open>No file specified for\<close> followed by the
  action, and leaves the task with \<open>_raw_params\<close> set to \<open>None\<close>.
\<close>

theorem check_options_missing_target:
  assumes "bad_opts task = [] \<or> action task \<notin> set (ACTION_ALL_PROPER_INCLUDE_IMPORT_TASKS C)"
    and "\<not> truthy (dict_get (args task) ''_raw_params'' PNone)"
    and "\<not> dict_contains (args task) ''file''"
  shows "check_options C h task data =
           Inl (AnsibleParserError (''No file specified for '' @ action task) None,
                task\<lparr>args := dict_setitem (args task) ''_raw_params'' PNone\<rparr>)"
proof -
  have absent: "map_of (args task) ''file'' = None"
    using assms(3) by (simp add: dict_contains_def)
  then have "fold_file task = task\<lparr>args := dict_setitem (args task) ''_raw_params'' PNone\<rparr>"
    by (simp add: fold_file_def delete_absent dict_get_def)
  moreover have "check_raw_params task =
      Inl (AnsibleParserError (''No file specified for '' @ action task) None, fold_file task)"
    using assms(2) absent by (simp add: check_raw_params_cases dict_get_def)
  ultimately show ?thesis
    using check_bad_opts_pass [OF assms(1)] by (simp add: check_options_def)
qed

theorem check_options_missing_target_witness:
  "check_options C_ex id (ti_ex ''import_tasks'' []) (PDict []) =
     Inl (AnsibleParserError ''No file specified for import_tasks'' None,
          ti_ex ''import_tasks'' [(''_raw_params'', PNone)])"
  using check_options_missing_target [of "ti_ex ''import_tasks'' []" C_ex id "PDict []"]
  by (simp add: ti_ex_def bad_opts_def dict_keys_def dict_get_def dict_contains_def
      dict_setitem_def)

text \<open>
  The check of the option names comes first: with \<open>args = {'bogus': 1}\<close> on
  \<open>include_tasks\<close>, which holds neither \<open>_raw_params\<close> nor \<open>file\<close>, the error is
  \<open>Invalid options\<close> and not \<open>No file specified\<close>.
\<close>

theorem check_options_bad_option_first:
  "check_options C_ex id (ti_ex ''include_tasks'' [(''bogus'', PInt 1)]) (PDict []) =
     Inl (AnsibleParserError ''Invalid options for include_tasks: bogus'' (Some (PDict [])),
          ti_ex ''include_tasks'' [(''bogus'', PInt 1)])"
  by (simp add: ex_defs)

section \<open>The \<open>apply\<close> option\<close>

text \<open>
  C4, as the code has it. Take a task that gets past the first two checks: no invalid
  option name is reported and \<open>_raw_params\<close> or \<open>file\<close> is not empty. If its action is
  not the dynamic include-tasks action and \<open>apply\<close> is present and not empty, then
  \<open>check_options\<close> raises the parser error \<open>Invalid options for\<close>, the action, and
  \<open>apply\<close>.
\<close>

theorem check_options_apply_not_allowed:
  assumes "bad_opts task = [] \<or> action task \<notin> set (ACTION_ALL_PROPER_INCLUDE_IMPORT_TASKS C)"
    and "truthy (dict_get (args task) ''_raw_params'' PNone) \<or>
         truthy (dict_get (args task) ''file'' PNone)"
    and "action task \<notin> set (ACTION_INCLUDE_TASKS C)"
    and "map_of (args task) ''apply'' = Some v"
    and "truthy v"
  shows "\<exists>task'. check_raw_params task = Inr task' \<and>
           check_options C h task data =
             Inl (AnsibleParserError (''Invalid options for '' @ action task @ '': apply'')
                    (Some data),
                  task')"
proof -
  obtain task' where t: "check_raw_params task = Inr task'"
      "check_options C h task data = check_apply C task' data"
      "action task' = action task"
      "dict_get (args task') ''apply'' (PDict []) = dict_get (args task) ''apply'' (PDict [])"
    using check_options_after_target [OF assms(1,2)] by blast
  have "dict_get (args task) ''apply'' (PDict []) = v"
    using assms(4) by (simp add: dict_get_def)
  then have "check_apply C task' data =
      Inl (AnsibleParserError (''Invalid options for '' @ action task @ '': apply'') (Some data),
           task')"
    using t(3,4) assms(3,5) by (simp add: check_apply_def)
  with t(1,2) show ?thesis by simp
qed

theorem check_options_apply_not_allowed_witness:
  "\<exists>task'. check_raw_params (ti_ex ''import_tasks''
               [(''_raw_params'', PStr ''x.yml''),
                (''apply'', PDict [(''tags'', PList [PStr ''a''])])]) = Inr task' \<and>
      check_options C_ex id (ti_ex ''import_tasks''
               [(''_raw_params'', PStr ''x.yml''),
                (''apply'', PDict [(''tags'', PList [PStr ''a''])])]) (PDict []) =
        Inl (AnsibleParserError ''Invalid options for import_tasks: apply'' (Some (PDict [])),
             task')"
  using check_options_apply_not_allowed
    [of "ti_ex ''import_tasks'' [(''_raw_params'', PStr ''x.yml''),
                                 (''apply'', PDict [(''tags'', PList [PStr ''a''])])]"
        C_ex "PDict [(''tags'', PList [PStr ''a''])]" id "PDict []"]
  by (simp add: ti_ex_def C_ex_def bad_opts_def dict_keys_def VALID_ARGS_def BASE_def
      OTHER_ARGS_def dict_get_def)

text \<open>
  The target is checked before \<open>apply\<close>: \<open>import_tasks\<close> with
  \<open>args = {'apply': {'tags': ['a']}}\<close> and no target raises \<open>No file specified\<close>.
  The option names are checked before both: with a key \<open>bogus\<close> beside the target and
  \<open>apply\<close>, the error names \<open>bogus\<close> and not \<open>apply\<close>.
\<close>

theorem check_options_apply_without_target:
  "check_options C_ex id
     (ti_ex ''import_tasks'' [(''apply'', PDict [(''tags'', PList [PStr ''a''])])]) (PDict []) =
     Inl (AnsibleParserError ''No file specified for import_tasks'' None,
          ti_ex ''import_tasks''
            [(''apply'', PDict [(''tags'', PList [PStr ''a''])]), (''_raw_params'', PNone)])
   \<and> check_options C_ex id
         (ti_ex ''import_tasks''
            [(''_raw_params'', PStr ''x.yml''),
             (''apply'', PDict [(''tags'', PList [PStr ''a''])]), (''bogus'', PInt 1)])
         (PDict []) =
       Inl (AnsibleParserError ''Invalid options for import_tasks: bogus'' (Some (PDict [])),
            ti_ex ''import_tasks''
              [(''_raw_params'', PStr ''x.yml''),
               (''apply'', PDict [(''tags'', PList [PStr ''a''])]), (''bogus'', PInt 1)])"
  by (simp add: ex_defs)

text \<open>
  C5, as the code has it. Take a task that gets past the first two checks and whose
  \<open>apply\<close> is supplied and is not a mapping. Then \<open>check_options\<close> raises. If the
  action is the dynamic include-tasks action, or the value is empty, the error is
  \<open>Expected a dict for apply but got T instead\<close>, where \<open>T\<close> is the type of the value.
  On any other action a value that is not empty raises \<open>Invalid options for\<close>, the
  action, and \<open>apply\<close> instead.
\<close>

theorem check_options_apply_type:
  assumes "bad_opts task = [] \<or> action task \<notin> set (ACTION_ALL_PROPER_INCLUDE_IMPORT_TASKS C)"
    and "truthy (dict_get (args task) ''_raw_params'' PNone) \<or>
         truthy (dict_get (args task) ''file'' PNone)"
    and "map_of (args task) ''apply'' = Some v"
    and "\<not> isinstance_dict v"
  shows "\<exists>task'. check_raw_params task = Inr task' \<and>
           (action task \<in> set (ACTION_INCLUDE_TASKS C) \<or> \<not> truthy v \<longrightarrow>
              check_options C h task data =
                Inl (AnsibleParserError
                       (''Expected a dict for apply but got '' @ type_str v @ '' instead'')
                       (Some data),
                     task')) \<and>
           (action task \<notin> set (ACTION_INCLUDE_TASKS C) \<and> truthy v \<longrightarrow>
              check_options C h task data =
                Inl (AnsibleParserError (''Invalid options for '' @ action task @ '': apply'')
                       (Some data),
                     task'))"
proof -
  obtain task' where t: "check_raw_params task = Inr task'"
      "check_options C h task data = check_apply C task' data"
      "action task' = action task"
      "dict_get (args task') ''apply'' (PDict []) = dict_get (args task) ''apply'' (PDict [])"
    using check_options_after_target [OF assms(1,2)] by blast
  have v: "dict_get (args task') ''apply'' (PDict []) = v"
    using assms(3) t(4) by (simp add: dict_get_def)
  have type_error: "check_apply C task' data =
      Inl (AnsibleParserError
             (''Expected a dict for apply but got '' @ type_str v @ '' instead'') (Some data),
           task')"
    if "action task \<in> set (ACTION_INCLUDE_TASKS C) \<or> \<not> truthy v"
    using that v t(3) assms(4) by (auto simp: check_apply_def)
  have option_error: "check_apply C task' data =
      Inl (AnsibleParserError (''Invalid options for '' @ action task @ '': apply'') (Some data),
           task')"
    if "action task \<notin> set (ACTION_INCLUDE_TASKS C) \<and> truthy v"
    using that v t(3) by (simp add: check_apply_def)
  show ?thesis
    using t(1,2) type_error option_error by (intro exI [of _ task']) simp
qed

theorem check_options_apply_type_witness:
  "(\<exists>task'. check_raw_params (ti_ex ''include_tasks''
               [(''_raw_params'', PStr ''x.yml''), (''apply'', PStr ''not-a-mapping'')]) =
             Inr task' \<and>
      check_options C_ex id (ti_ex ''include_tasks''
               [(''_raw_params'', PStr ''x.yml''), (''apply'', PStr ''not-a-mapping'')])
        (PDict []) =
        Inl (AnsibleParserError
               (''Expected a dict for apply but got <class '' @ [CHR 0x27] @ ''str'' @
                [CHR 0x27] @ ''> instead'')
               (Some (PDict [])), task'))
   \<and> (\<exists>task'. check_raw_params (ti_ex ''import_tasks''
               [(''_raw_params'', PStr ''x.yml''), (''apply'', PNone)]) = Inr task' \<and>
      check_options C_ex id (ti_ex ''import_tasks''
               [(''_raw_params'', PStr ''x.yml''), (''apply'', PNone)]) (PDict []) =
        Inl (AnsibleParserError
               (''Expected a dict for apply but got <class '' @ [CHR 0x27] @ ''NoneType'' @
                [CHR 0x27] @ ''> instead'')
               (Some (PDict [])), task'))
   \<and> (\<exists>task'. check_raw_params (ti_ex ''import_tasks''
               [(''_raw_params'', PStr ''x.yml''), (''apply'', PList [PStr ''a''])]) =
             Inr task' \<and>
      check_options C_ex id (ti_ex ''import_tasks''
               [(''_raw_params'', PStr ''x.yml''), (''apply'', PList [PStr ''a''])]) (PDict []) =
        Inl (AnsibleParserError ''Invalid options for import_tasks: apply'' (Some (PDict [])),
             task'))"
  using check_options_apply_type
    [of "ti_ex ''include_tasks''
           [(''_raw_params'', PStr ''x.yml''), (''apply'', PStr ''not-a-mapping'')]"
        C_ex "PStr ''not-a-mapping''" id "PDict []"]
    check_options_apply_type
    [of "ti_ex ''import_tasks'' [(''_raw_params'', PStr ''x.yml''), (''apply'', PNone)]"
        C_ex PNone id "PDict []"]
    check_options_apply_type
    [of "ti_ex ''import_tasks''
           [(''_raw_params'', PStr ''x.yml''), (''apply'', PList [PStr ''a''])]"
        C_ex "PList [PStr ''a'']" id "PDict []"]
  by (simp add: ti_ex_def C_ex_def bad_opts_def dict_keys_def VALID_ARGS_def BASE_def
      OTHER_ARGS_def dict_get_def class_repr_def)

text \<open>
  On another action a non-empty \<open>apply\<close> is refused before its type is looked at:
  \<open>import_tasks\<close> with \<open>apply = 'not-a-mapping'\<close> raises \<open>Invalid options\<close>.
  And on \<open>include_tasks\<close> the same \<open>apply\<close> without a target raises
  \<open>No file specified\<close>.
\<close>

theorem check_options_apply_string_on_import:
  "check_options C_ex id
     (ti_ex ''import_tasks''
        [(''_raw_params'', PStr ''x.yml''), (''apply'', PStr ''not-a-mapping'')])
     (PDict []) =
     Inl (AnsibleParserError ''Invalid options for import_tasks: apply'' (Some (PDict [])),
          ti_ex ''import_tasks''
            [(''_raw_params'', PStr ''x.yml''), (''apply'', PStr ''not-a-mapping'')])
   \<and> check_options C_ex id
         (ti_ex ''include_tasks'' [(''apply'', PStr ''not-a-mapping'')]) (PDict []) =
       Inl (AnsibleParserError ''No file specified for include_tasks'' None,
            ti_ex ''include_tasks''
              [(''apply'', PStr ''not-a-mapping''), (''_raw_params'', PNone)])"
  by (simp add: ex_defs)

section \<open>When \<open>check_options\<close> succeeds\<close>

text \<open>
  C9, as the code has it. For a task of the include and import task family whose \<open>args\<close>
  hold only keys of \<open>VALID_ARGS\<close>, the check of the option names passes, and
  \<open>check_options\<close> returns exactly when \<open>_raw_params\<close> or \<open>file\<close> is not empty and
  \<open>apply\<close> is absent or a mapping that is empty or sits on the dynamic include-tasks
  action.
\<close>

theorem check_options_valid_args:
  assumes "action task \<in> set (ACTION_ALL_PROPER_INCLUDE_IMPORT_TASKS C)"
    and "\<forall>k. dict_contains (args task) k \<longrightarrow> k \<in> set VALID_ARGS"
  shows "check_bad_opts C h task data = Inr task \<and>
         ((\<exists>task'. check_options C h task data = Inr task') \<longleftrightarrow>
            (truthy (dict_get (args task) ''_raw_params'' PNone) \<or>
             truthy (dict_get (args task) ''file'' PNone)) \<and>
            isinstance_dict (dict_get (args task) ''apply'' (PDict [])) \<and>
            (truthy (dict_get (args task) ''apply'' (PDict [])) \<longrightarrow>
               action task \<in> set (ACTION_INCLUDE_TASKS C)))"
proof -
  have pass: "bad_opts task = [] \<or> action task \<notin> set (ACTION_ALL_PROPER_INCLUDE_IMPORT_TASKS C)"
    using assms(2) by (simp add: bad_opts_empty_iff)
  show ?thesis
  proof (cases "truthy (dict_get (args task) ''_raw_params'' PNone) \<or>
                truthy (dict_get (args task) ''file'' PNone)")
    case True
    obtain task' where t: "check_options C h task data = check_apply C task' data"
        "action task' = action task"
        "dict_get (args task') ''apply'' (PDict []) = dict_get (args task) ''apply'' (PDict [])"
      using check_options_after_target [OF pass True] by blast
    show ?thesis
      using True check_bad_opts_pass [OF pass] check_apply_succeeds_iff [of C task' data] t
      by simp
  next
    case False
    then have "check_raw_params task =
        Inl (AnsibleParserError (''No file specified for '' @ action task) None, fold_file task)"
      by (simp add: check_raw_params_cases)
    then show ?thesis
      using False check_bad_opts_pass [OF pass] by (simp add: check_options_def)
  qed
qed

theorem check_options_valid_args_witness:
  "check_bad_opts C_ex id (ti_ex ''include_tasks''
        [(''file'', PStr ''x.yml''), (''apply'', PDict [(''tags'', PList [PStr ''a''])])])
     (PDict []) =
     Inr (ti_ex ''include_tasks''
        [(''file'', PStr ''x.yml''), (''apply'', PDict [(''tags'', PList [PStr ''a''])])]) \<and>
   (\<exists>task'. check_options C_ex id (ti_ex ''include_tasks''
        [(''file'', PStr ''x.yml''), (''apply'', PDict [(''tags'', PList [PStr ''a''])])])
      (PDict []) =
      Inr task')"
  using check_options_valid_args
    [of "ti_ex ''include_tasks''
           [(''file'', PStr ''x.yml''), (''apply'', PDict [(''tags'', PList [PStr ''a''])])]"
        C_ex id "PDict []"]
  by (simp add: ti_ex_def C_ex_def dict_contains_def VALID_ARGS_def BASE_def OTHER_ARGS_def
      dict_get_def)

text \<open>
  Valid option names are not enough: \<open>include_tasks\<close> with \<open>args = {}\<close> holds no key
  outside \<open>VALID_ARGS\<close> and raises \<open>No file specified\<close>.
\<close>

theorem check_options_valid_args_no_target:
  "check_options C_ex id (ti_ex ''include_tasks'' []) (PDict []) =
     Inl (AnsibleParserError ''No file specified for include_tasks'' None,
          ti_ex ''include_tasks'' [(''_raw_params'', PNone)])"
  by (simp add: ex_defs)

section \<open>The task after a failed validation\<close>

text \<open>
  C10, as the code has it. When \<open>check_options\<close> raises \<open>No file specified\<close>, the
  task it leaves differs from the task it was given in \<open>args\<close> only, and there in the
  keys \<open>file\<close> and \<open>_raw_params\<close> only: \<open>file\<close> is gone, and \<open>_raw_params\<close> holds
  the value popped from \<open>file\<close>, which is \<open>None\<close> when \<open>file\<close> was absent and the
  empty value of \<open>file\<close> otherwise.
\<close>

theorem check_options_missing_target_state:
  assumes "check_options C h task data =
             Inl (AnsibleParserError (''No file specified for '' @ action task) None, task')"
  shows "task' = task\<lparr>args := args task'\<rparr>
       \<and> \<not> dict_contains (args task') ''file''
       \<and> dict_getitem (args task') ''_raw_params'' =
           Inr (case map_of (args task) ''file'' of None \<Rightarrow> PNone | Some f \<Rightarrow> f)
       \<and> \<not> truthy (case map_of (args task) ''file'' of None \<Rightarrow> PNone | Some f \<Rightarrow> f)
       \<and> (\<forall>k. k \<noteq> ''file'' \<and> k \<noteq> ''_raw_params'' \<longrightarrow>
              map_of (args task') k = map_of (args task) k)"
proof -
  have b: "check_bad_opts C h task data = Inr task"
    using assms check_bad_opts_cases [of C h task data] by (auto simp: check_options_def)
  have "\<not> truthy (dict_get (args task) ''_raw_params'' PNone) \<and>
        \<not> truthy (dict_get (args task) ''file'' PNone) \<and> task' = fold_file task"
  proof (cases "check_raw_params task")
    case (Inl r)
    then show ?thesis
      using assms b by (auto simp: check_options_def check_raw_params_cases split: if_splits)
  next
    case (Inr t)
    then show ?thesis
      using assms b check_apply_cases [of C t data] by (auto simp: check_options_def)
  qed
  then have st: "\<not> truthy (dict_get (args task) ''file'' PNone)" "task' = fold_file task"
    by simp_all
  have "fold_file task = task\<lparr>args := args (fold_file task)\<rparr>"
    by (simp add: fold_file_def)
  then show ?thesis
    using st by (simp add: args_fold_file dict_contains_def dict_getitem_def dict_get_def)
qed

theorem check_options_missing_target_state_witness:
  "check_options C_ex id (ti_ex ''include_tasks'' [(''file'', PNone)]) (PDict []) =
     Inl (AnsibleParserError ''No file specified for include_tasks'' None,
          ti_ex ''include_tasks'' [(''_raw_params'', PNone)])
   \<and> ti_ex ''include_tasks'' [(''_raw_params'', PNone)] =
     (ti_ex ''include_tasks'' [(''file'', PNone)])\<lparr>args := [(''_raw_params'', PNone)]\<rparr>
   \<and> \<not> dict_contains [(''_raw_params'', PNone)] ''file''
   \<and> dict_getitem [(''_raw_params'', PNone)] ''_raw_params'' = Inr PNone"
  using check_options_missing_target_state
    [of C_ex id "ti_ex ''include_tasks'' [(''file'', PNone)]" "PDict []"
        "ti_ex ''include_tasks'' [(''_raw_params'', PNone)]"]
  by (simp add: ex_defs)

text \<open>
  \<open>_raw_params\<close> is not always \<open>None\<close> after the failure: with \<open>args = {'file': ''}\<close>
  it holds the empty string.
\<close>

theorem check_options_missing_target_keeps_empty_file:
  "check_options C_ex id (ti_ex ''include_tasks'' [(''file'', PStr '''')]) (PDict []) =
     Inl (AnsibleParserError ''No file specified for include_tasks'' None,
          ti_ex ''include_tasks'' [(''_raw_params'', PStr '''')])
   \<and> dict_getitem (args (ti_ex ''include_tasks'' [(''_raw_params'', PStr '''')]))
         ''_raw_params'' \<noteq> Inr PNone"
  by (simp add: ex_defs)

section \<open>Duplication\<close>

text \<open>
  C7. For every instance and every value of the two flags, when the copy of the base class
  returns a new instance, \<open>copy\<close> returns that instance with \<open>statically_loaded\<close> set to
  the value the original holds, whatever the base copy had put there.
\<close>

theorem copy_statically_loaded:
  assumes "Task_copy d exclude_parent exclude_tasks = Inr new_me"
  shows "\<exists>c. copy Task_copy d exclude_parent exclude_tasks = Inr c
           \<and> statically_loaded c = statically_loaded d
           \<and> c = new_me\<lparr>statically_loaded := statically_loaded d\<rparr>"
  using assms by (simp add: copy_def)

theorem copy_statically_loaded_witness:
  "Task_copy_ex ((ti_ex ''include_tasks'' [])\<lparr>statically_loaded := True\<rparr>) True False =
     Inr ((ti_ex ''include_tasks'' [])\<lparr>statically_loaded := False, parent := None\<rparr>)
   \<and> (\<exists>c. copy Task_copy_ex ((ti_ex ''include_tasks'' [])\<lparr>statically_loaded := True\<rparr>)
             True False = Inr c
          \<and> statically_loaded c = True
          \<and> c = (ti_ex ''include_tasks'' [])\<lparr>statically_loaded := True, parent := None\<rparr>)"
  using copy_statically_loaded
    [of Task_copy_ex "(ti_ex ''include_tasks'' [])\<lparr>statically_loaded := True\<rparr>" True False
        "(ti_ex ''include_tasks'' [])\<lparr>statically_loaded := False, parent := None\<rparr>"]
  by (simp add: Task_copy_ex_def ti_ex_def)

section \<open>The parent block\<close>

lemma build_parent_block_cases:
  "build_parent_block Block_load self =
     (if truthy (dict_get (args self) ''apply'' (PDict []))
      then (case setitem (dict_get (args self) ''apply'' (PDict [])) ''block'' (PList []) of
              Inl e \<Rightarrow> (Inl e, self\<lparr>args := AList.delete ''apply'' (args self)\<rparr>)
            | Inr m \<Rightarrow>
                (case parent self of
                   None \<Rightarrow> (Inl AttributeError, self\<lparr>args := AList.delete ''apply'' (args self)\<rparr>)
                 | Some p \<Rightarrow>
                     (case Block_load m (play p)
                             (self\<lparr>args := AList.delete ''apply'' (args self)\<rparr>)
                             (role self) (variable_manager self) (loader self) of
                        Inl e \<Rightarrow> (Inl e, self\<lparr>args := AList.delete ''apply'' (args self)\<rparr>)
                      | Inr b \<Rightarrow>
                          (Inr (NewBlock b),
                           self\<lparr>args := AList.delete ''apply'' (args self)\<rparr>))))
      else (Inr Self, self\<lparr>args := AList.delete ''apply'' (args self)\<rparr>))"
  by (simp add: build_parent_block_def dict_pop_def Let_def split: sum.splits option.splits)

text \<open>
  C6. If \<open>apply\<close> is a non-empty mapping, \<open>build_parent_block\<close> removes \<open>apply\<close>
  from \<open>args\<close>, stores an empty list under \<open>block\<close> in the popped mapping, and returns
  the block that \<open>Block.load\<close> builds from that mapping (an error of \<open>Block.load\<close> is
  passed on), called with the play of the enclosing block, the instance as the generating
  include, and the role, variable manager and loader of the instance. If \<open>apply\<close> is
  absent or empty, it returns the instance itself and no new block. In every case the
  instance is left with \<open>apply\<close> popped from \<open>args\<close> and nothing else changed, so it
  is as it was when \<open>apply\<close> was absent.
\<close>

theorem build_parent_block_result:
  "\<exists>self'. snd (build_parent_block Block_load self) = self'
      \<and> self' = self\<lparr>args := args self'\<rparr>
      \<and> map_of (args self') = (map_of (args self))(''apply'' := None)
      \<and> (map_of (args self) ''apply'' = None \<longrightarrow> self' = self)
      \<and> (\<not> truthy (dict_get (args self) ''apply'' (PDict [])) \<longrightarrow>
            fst (build_parent_block Block_load self) = Inr Self)
      \<and> (\<forall>d p. map_of (args self) ''apply'' = Some (PDict d) \<and> d \<noteq> [] \<and> parent self = Some p \<longrightarrow>
            (\<exists>m. map_of m = (map_of d)(''block'' \<mapsto> PList []) \<and>
                 fst (build_parent_block Block_load self) =
                   (case Block_load (PDict m) (play p) self' (role self) (variable_manager self)
                           (loader self) of
                      Inl e \<Rightarrow> Inl e
                    | Inr b \<Rightarrow> Inr (NewBlock b))))"
proof -
  let ?self' = "self\<lparr>args := AList.delete ''apply'' (args self)\<rparr>"
  have s: "snd (build_parent_block Block_load self) = ?self'"
    by (simp add: build_parent_block_cases split: sum.splits option.splits)
  have a: "map_of (args self) ''apply'' = None \<longrightarrow> ?self' = self"
    by (simp add: delete_absent)
  have e: "\<not> truthy (dict_get (args self) ''apply'' (PDict [])) \<longrightarrow>
             fst (build_parent_block Block_load self) = Inr Self"
    by (simp add: build_parent_block_cases)
  have n: "\<exists>m. map_of m = (map_of d)(''block'' \<mapsto> PList []) \<and>
                 fst (build_parent_block Block_load self) =
                   (case Block_load (PDict m) (play p) ?self' (role self) (variable_manager self)
                           (loader self) of
                      Inl e \<Rightarrow> Inl e
                    | Inr b \<Rightarrow> Inr (NewBlock b))"
    if "map_of (args self) ''apply'' = Some (PDict d)" "d \<noteq> []" "parent self = Some p" for d p
    using that
    by (intro exI [of _ "dict_setitem d ''block'' (PList [])"])
       (simp add: build_parent_block_cases dict_get_def map_of_dict_setitem split: sum.splits)
  show ?thesis
    using s a e n by (simp add: map_of_delete)
qed

theorem build_parent_block_result_witness:
  "fst (build_parent_block Block_load_ex (ti_ex ''include_tasks''
          [(''_raw_params'', PStr ''x.yml''),
           (''apply'', PDict [(''tags'', PList [PStr ''a''])])])) =
     Inr (NewBlock (PDict [(''tags'', PList [PStr ''a'']), (''block'', PList [])], Some 1,
                    ti_ex ''include_tasks'' [(''_raw_params'', PStr ''x.yml'')],
                    Some 2, Some 3, Some 4))
   \<and> build_parent_block Block_load_ex
         (ti_ex ''include_tasks'' [(''_raw_params'', PStr ''x.yml'')]) =
       (Inr Self, ti_ex ''include_tasks'' [(''_raw_params'', PStr ''x.yml'')])
   \<and> build_parent_block Block_load_ex
         (ti_ex ''include_tasks'' [(''_raw_params'', PStr ''x.yml''), (''apply'', PDict [])]) =
       (Inr Self, ti_ex ''include_tasks'' [(''_raw_params'', PStr ''x.yml'')])"
  using build_parent_block_result [of Block_load_ex "ti_ex ''include_tasks''
          [(''_raw_params'', PStr ''x.yml''),
           (''apply'', PDict [(''tags'', PList [PStr ''a''])])]"]
    build_parent_block_result
      [of Block_load_ex "ti_ex ''include_tasks'' [(''_raw_params'', PStr ''x.yml'')]"]
    build_parent_block_result
      [of Block_load_ex
          "ti_ex ''include_tasks'' [(''_raw_params'', PStr ''x.yml''), (''apply'', PDict [])]"]
  by (simp add: build_parent_block_def dict_pop_def dict_get_def dict_setitem_def ti_ex_def
      Block_load_ex_def Let_def)

section \<open>Keywords of a role include\<close>

text \<open>
  The loop over a list of keys of the data, when the action is one of the role include
  actions: under the relaxed policy it warns once for every supplied key and goes on,
  under the strict policy it raises at the first supplied key.
\<close>

lemma for_diff_warn:
  assumes "map_of ds ''action'' = Some a"
    and "py_in a (ACTION_ALL_INCLUDE_ROLE_TASKS C)"
    and "\<not> INVALID_TASK_ATTRIBUTE_FAILED C"
    and "\<forall>k \<in> set ks. dict_contains ds k"
  shows "for_diff C self ds ks out =
           (Inr (), out @ map (\<lambda>k. ''Ignoring invalid attribute: '' @ k) (filter (supplied ds) ks))"
  using assms(4)
proof (induction ks arbitrary: out)
  case Nil
  then show ?case by simp
next
  case (Cons k ks)
  then obtain v where v: "map_of ds k = Some v"
    by (auto simp: dict_contains_def)
  show ?case
    using Cons v assms(1,2,3) by (simp add: dict_getitem_def supplied_def)
qed

lemma for_diff_fail:
  assumes "map_of ds ''action'' = Some a"
    and "py_in a (ACTION_ALL_INCLUDE_ROLE_TASKS C)"
    and "INVALID_TASK_ATTRIBUTE_FAILED C"
    and "\<forall>k \<in> set ks. dict_contains ds k"
  shows "for_diff C self ds ks out =
           (case filter (supplied ds) ks of
              [] \<Rightarrow> (Inr (), out)
            | k # rest \<Rightarrow>
                (Inl (AnsibleParserError
                        ([CHR 0x27] @ k @ [CHR 0x27] @ '' is not a valid attribute for a '' @
                         class_name self)
                        (Some (PDict ds))), out))"
  using assms(4)
proof (induction ks arbitrary: out)
  case Nil
  then show ?case by simp
next
  case (Cons k ks)
  then obtain v where v: "map_of ds k = Some v"
    by (auto simp: dict_contains_def)
  show ?case
    using Cons v assms(1,2,3) by (simp add: dict_getitem_def supplied_def)
qed

text \<open>
  C8, as the code has it. \<open>preprocess_data\<close> looks at the data \<open>ds\<close> that the
  preprocessing of the base class returns, not at the data it was given. Let \<open>ds\<close> have
  an action of the role include family and hold a key outside \<open>VALID_INCLUDE_KEYWORDS\<close>
  whose value is not \<open>Sentinel\<close>. Under the strict policy \<open>preprocess_data\<close> raises
  the parser error that names the first such key in the order in which the set of keys is
  iterated (every key iterated before it holds \<open>Sentinel\<close>) and the class of the
  instance, and sends no warning. Under the relaxed policy it returns \<open>ds\<close> itself, with
  every key still there, after sending exactly one warning for each such key and no other
  warning.
\<close>

theorem preprocess_data_invalid_attribute:
  assumes "permutes h"
    and "Task_preprocess_data ds0 out0 = (Inr ds, out)"
    and "map_of ds ''action'' = Some a"
    and "py_in a (ACTION_ALL_INCLUDE_ROLE_TASKS C)"
    and "map_of ds k = Some v" and "v \<noteq> PSentinel" and "k \<notin> set VALID_INCLUDE_KEYWORDS"
  shows "(INVALID_TASK_ATTRIBUTE_FAILED C \<longrightarrow>
           (\<exists>pre k' post.
              h (filter (\<lambda>k. k \<notin> set VALID_INCLUDE_KEYWORDS) (dict_keys ds)) = pre @ k' # post \<and>
              (\<forall>x \<in> set pre. map_of ds x = Some PSentinel) \<and>
              k' \<notin> set VALID_INCLUDE_KEYWORDS \<and>
              (\<exists>v'. map_of ds k' = Some v' \<and> v' \<noteq> PSentinel) \<and>
              preprocess_data C h Task_preprocess_data self ds0 out0 =
                (Inl (AnsibleParserError
                        ([CHR 0x27] @ k' @ [CHR 0x27] @ '' is not a valid attribute for a '' @
                         class_name self)
                        (Some (PDict ds))), out)))
       \<and> (\<not> INVALID_TASK_ATTRIBUTE_FAILED C \<longrightarrow>
           (\<exists>ks. distinct ks \<and>
              set ks = {k'. k' \<notin> set VALID_INCLUDE_KEYWORDS \<and>
                            (\<exists>v'. map_of ds k' = Some v' \<and> v' \<noteq> PSentinel)} \<and>
              preprocess_data C h Task_preprocess_data self ds0 out0 =
                (Inr ds, out @ map (\<lambda>k'. ''Ignoring invalid attribute: '' @ k') ks)))"
proof -
  let ?diff = "filter (\<lambda>k. k \<notin> set VALID_INCLUDE_KEYWORDS) (dict_keys ds)"
  let ?ks = "filter (supplied ds) (h ?diff)"
  have hd: "set (h ?diff) = set ?diff" "distinct (h ?diff)"
    using assms(1) distinct_dict_keys [of ds] by (simp_all add: permutes_def)
  have dom: "\<forall>k \<in> set (h ?diff). dict_contains ds k"
    using hd(1) set_dict_keys [of ds] by auto
  have set_ks: "set ?ks = {k'. k' \<notin> set VALID_INCLUDE_KEYWORDS \<and>
                              (\<exists>v'. map_of ds k' = Some v' \<and> v' \<noteq> PSentinel)}"
    using hd(1) set_dict_keys [of ds]
    by (auto simp: supplied_def dict_contains_def split: option.splits)
  have "k \<in> set ?ks"
    unfolding set_ks using assms(5,6,7) by simp
  then obtain k' more where ks: "?ks = k' # more"
    by (cases ?ks) auto
  then obtain pre post where split: "h ?diff = pre @ k' # post"
      "\<forall>x \<in> set pre. \<not> supplied ds x" "supplied ds k'"
    unfolding filter_eq_Cons_iff by blast
  have sentinel: "\<forall>x \<in> set pre. map_of ds x = Some PSentinel"
  proof
    fix x assume x: "x \<in> set pre"
    then have "dict_contains ds x" using dom split(1) by simp
    moreover have "\<not> supplied ds x" using split(2) x by simp
    ultimately show "map_of ds x = Some PSentinel"
      by (auto simp: dict_contains_def supplied_def)
  qed
  have "k' \<in> set ?ks" using ks by simp
  then have k': "k' \<notin> set VALID_INCLUDE_KEYWORDS"
      "\<exists>v'. map_of ds k' = Some v' \<and> v' \<noteq> PSentinel"
    unfolding set_ks by simp_all
  have strict: "preprocess_data C h Task_preprocess_data self ds0 out0 =
                (Inl (AnsibleParserError
                        ([CHR 0x27] @ k' @ [CHR 0x27] @ '' is not a valid attribute for a '' @
                         class_name self)
                        (Some (PDict ds))), out)"
    if "INVALID_TASK_ATTRIBUTE_FAILED C"
    using for_diff_fail [OF assms(3,4) that dom, of self out] ks assms(2)
    by (simp add: preprocess_data_def)
  have relaxed: "preprocess_data C h Task_preprocess_data self ds0 out0 =
                (Inr ds, out @ map (\<lambda>k'. ''Ignoring invalid attribute: '' @ k') ?ks)"
    if "\<not> INVALID_TASK_ATTRIBUTE_FAILED C"
    using for_diff_warn [OF assms(3,4) that dom, of self out] assms(2)
    by (simp add: preprocess_data_def)
  have "distinct ?ks" using hd(2) by simp
  with set_ks relaxed have r: "\<not> INVALID_TASK_ATTRIBUTE_FAILED C \<longrightarrow>
           (\<exists>ks. distinct ks \<and>
              set ks = {k'. k' \<notin> set VALID_INCLUDE_KEYWORDS \<and>
                            (\<exists>v'. map_of ds k' = Some v' \<and> v' \<noteq> PSentinel)} \<and>
              preprocess_data C h Task_preprocess_data self ds0 out0 =
                (Inr ds, out @ map (\<lambda>k'. ''Ignoring invalid attribute: '' @ k') ks))"
    by blast
  from split(1) sentinel k' strict have s: "INVALID_TASK_ATTRIBUTE_FAILED C \<longrightarrow>
           (\<exists>pre k' post.
              h ?diff = pre @ k' # post \<and>
              (\<forall>x \<in> set pre. map_of ds x = Some PSentinel) \<and>
              k' \<notin> set VALID_INCLUDE_KEYWORDS \<and>
              (\<exists>v'. map_of ds k' = Some v' \<and> v' \<noteq> PSentinel) \<and>
              preprocess_data C h Task_preprocess_data self ds0 out0 =
                (Inl (AnsibleParserError
                        ([CHR 0x27] @ k' @ [CHR 0x27] @ '' is not a valid attribute for a '' @
                         class_name self)
                        (Some (PDict ds))), out))"
    by blast
  from s r show ?thesis by (rule conjI)
qed

theorem preprocess_data_invalid_attribute_witness:
  "preprocess_data C_ex rev Task_preprocess_data_ex (ti_ex ''include_role'' []) ds_ex [] =
     (Inl (AnsibleParserError
             ([CHR 0x27] @ ''foo'' @ [CHR 0x27] @ '' is not a valid attribute for a TaskInclude'')
             (Some (PDict ds_ex))), [])
   \<and> preprocess_data (C_ex\<lparr>INVALID_TASK_ATTRIBUTE_FAILED := False\<rparr>) rev Task_preprocess_data_ex
        (ti_ex ''include_role'' []) ds_two_ex [] =
     (Inr ds_two_ex, [''Ignoring invalid attribute: zap'', ''Ignoring invalid attribute: foo''])"
  using preprocess_data_invalid_attribute
      [OF permutes_rev, of Task_preprocess_data_ex ds_ex "[]" ds_ex "[]" "PStr ''include_role''"
          C_ex "''foo''" "PStr ''bar''" "ti_ex ''include_role'' []"]
    preprocess_data_invalid_attribute
      [OF permutes_rev, of Task_preprocess_data_ex ds_two_ex "[]" ds_two_ex "[]"
          "PStr ''include_role''"
          "C_ex\<lparr>INVALID_TASK_ATTRIBUTE_FAILED := False\<rparr>" "''foo''" "PStr ''bar''"
          "ti_ex ''include_role'' []"]
  by (simp add: preprocess_data_def Task_preprocess_data_ex_def ds_ex_def ds_two_ex_def C_ex_def
      ti_ex_def dict_keys_def VALID_INCLUDE_KEYWORDS_def dict_getitem_def)

text \<open>
  With two such keys only one is named: on data with \<open>foo\<close> and \<open>zap\<close> the error
  names \<open>foo\<close>, and \<open>zap\<close>, which is outside the keywords and supplied, is not
  named. And a key of the data given to the method is not looked at when the base class
  leaves it out of the data it returns: the call then returns without an error under the
  strict policy, and the data it returns lacks the key.
\<close>

theorem preprocess_data_names_first_key:
  "preprocess_data C_ex id Task_preprocess_data_ex (ti_ex ''include_role'' []) ds_two_ex [] =
     (Inl (AnsibleParserError
             ([CHR 0x27] @ ''foo'' @ [CHR 0x27] @ '' is not a valid attribute for a TaskInclude'')
             (Some (PDict ds_two_ex))), [])
   \<and> map_of ds_two_ex ''zap'' = Some (PInt 1)
   \<and> ''zap'' \<notin> set VALID_INCLUDE_KEYWORDS
   \<and> AnsibleParserError
         ([CHR 0x27] @ ''foo'' @ [CHR 0x27] @ '' is not a valid attribute for a TaskInclude'')
         (Some (PDict ds_two_ex)) \<noteq>
       AnsibleParserError
         ([CHR 0x27] @ ''zap'' @ [CHR 0x27] @ '' is not a valid attribute for a TaskInclude'')
         (Some (PDict ds_two_ex))
   \<and> map_of [(''action'', PStr ''include_role''), (''foo'', PStr ''bar'')] ''foo'' =
       Some (PStr ''bar'')
   \<and> preprocess_data C_ex id Task_preprocess_data_drop_ex (ti_ex ''include_role'' [])
         [(''action'', PStr ''include_role''), (''foo'', PStr ''bar'')] [] =
       (Inr [(''action'', PStr ''include_role'')], [])"
  by (simp add: preprocess_data_def Task_preprocess_data_ex_def Task_preprocess_data_drop_ex_def
      ds_two_ex_def C_ex_def ti_ex_def dict_keys_def VALID_INCLUDE_KEYWORDS_def dict_getitem_def)

end
